theory Spec2Isabelle
  imports Complex_Main
begin

section \<open>Python values, errors and dictionaries\<close>

text \<open>
  The module \<^verbatim>\<open>homeassistant/components/zigbee.py\<close> reads a configuration
  dictionary (produced by the YAML loader) whose values are arbitrary Python
  objects. The values that can occur are modelled by \<open>pyval\<close>. A Python
  \<^verbatim>\<open>float\<close> is an IEEE double: a finite double is the rational number it
  denotes, and the three special values are constructors of their own. Both
  \<^verbatim>\<open>str\<close> and \<^verbatim>\<open>bytes\<close> are lists of 8-bit characters (a \<^verbatim>\<open>str\<close>
  in its UTF-8 encoding, so a character outside ASCII is a run of bytes
  at or above 128).
\<close>

datatype pyfloat = Finite rat | PosInf | NegInf | NaN

datatype pyval =
    VNone
  | VBool bool
  | VInt int
  | VFloat pyfloat
  | VStr string
  | VBytes string
  | VList "pyval list"

text \<open>
  Every exception the module can raise is a value. \<open>BinasciiError\<close> is
  \<^verbatim>\<open>binascii.Error\<close>; \<open>DriverError\<close> stands for whatever the device
  helper raises from a read or a write.
\<close>

datatype error =
    KeyError
  | AttributeError
  | TypeError
  | ValueError
  | OverflowError
  | BinasciiError
  | DriverError string

type_synonym config = "string \<rightharpoonup> pyval"

text \<open>\<^verbatim>\<open>d.get(k, default)\<close> and \<^verbatim>\<open>d[k]\<close>.\<close>

definition dict_get :: "config \<Rightarrow> string \<Rightarrow> pyval \<Rightarrow> pyval" where
  "dict_get d k dflt = (case d k of None \<Rightarrow> dflt | Some v \<Rightarrow> v)"

definition dict_getitem :: "config \<Rightarrow> string \<Rightarrow> error + pyval" where
  "dict_getitem d k = (case d k of None \<Rightarrow> Inl KeyError | Some v \<Rightarrow> Inr v)"

text \<open>Truth value of an object, as \<^verbatim>\<open>not x\<close> and \<^verbatim>\<open>if x\<close> test it.\<close>

fun py_truthy :: "pyval \<Rightarrow> bool" where
  "py_truthy VNone = False"
| "py_truthy (VBool b) = b"
| "py_truthy (VInt i) = (i \<noteq> 0)"
| "py_truthy (VFloat f) = (f \<noteq> Finite 0)"
| "py_truthy (VStr s) = (s \<noteq> [])"
| "py_truthy (VBytes s) = (s \<noteq> [])"
| "py_truthy (VList xs) = (xs \<noteq> [])"

subsection \<open>\<^verbatim>\<open>str.lower\<close>\<close>

definition lower_char :: "char \<Rightarrow> char" where
  "lower_char c =
     (let n = (of_char c :: nat) in if 65 \<le> n \<and> n \<le> 90 then char_of (n + 32) else c)"

definition str_lower :: "string \<Rightarrow> string" where
  "str_lower s = map lower_char s"

text \<open>
  \<^verbatim>\<open>x.lower()\<close> on an arbitrary object: \<^verbatim>\<open>str\<close> and \<^verbatim>\<open>bytes\<close> have the
  method, the other types raise \<^verbatim>\<open>AttributeError\<close>.
\<close>

fun py_lower :: "pyval \<Rightarrow> error + pyval" where
  "py_lower (VStr s) = Inr (VStr (str_lower s))"
| "py_lower (VBytes s) = Inr (VBytes (str_lower s))"
| "py_lower v = Inl AttributeError"

subsection \<open>\<^verbatim>\<open>binascii.unhexlify\<close>\<close>

definition hex_digit :: "char \<Rightarrow> nat option" where
  "hex_digit c =
     (let n = (of_char c :: nat) in
      if 48 \<le> n \<and> n \<le> 57 then Some (n - 48)
      else if 97 \<le> n \<and> n \<le> 102 then Some (n - 87)
      else if 65 \<le> n \<and> n \<le> 70 then Some (n - 55)
      else None)"

fun unhex_pairs :: "string \<Rightarrow> error + string" where
  "unhex_pairs [] = Inr []"
| "unhex_pairs [c] = Inl BinasciiError"
| "unhex_pairs (a # b # rest) =
     (case (hex_digit a, hex_digit b) of
        (Some h, Some l) \<Rightarrow>
          (case unhex_pairs rest of
             Inl e \<Rightarrow> Inl e
           | Inr bs \<Rightarrow> Inr (char_of (16 * h + l) # bs))
      | _ \<Rightarrow> Inl BinasciiError)"

text \<open>
  The argument is \<^verbatim>\<open>bytes\<close> or an ASCII-only \<^verbatim>\<open>str\<close>; an odd length
  and a character that is no hexadecimal digit are both \<^verbatim>\<open>binascii.Error\<close>.
\<close>

fun unhexlify :: "pyval \<Rightarrow> error + string" where
  "unhexlify (VStr s) =
     (if \<exists>c \<in> set s. 128 \<le> (of_char c :: nat) then Inl ValueError
      else if odd (length s) then Inl BinasciiError
      else unhex_pairs s)"
| "unhexlify (VBytes s) =
     (if odd (length s) then Inl BinasciiError else unhex_pairs s)"
| "unhexlify v = Inl TypeError"

subsection \<open>\<^verbatim>\<open>float\<close>\<close>

text \<open>
  \<^verbatim>\<open>float(x)\<close>: a float is returned as it is, \<^verbatim>\<open>None\<close> and a list raise
  \<^verbatim>\<open>TypeError\<close>. What the interpreter does with text and with integers
  (its numeric parser, rounding to the nearest double, \<^verbatim>\<open>ValueError\<close>,
  \<^verbatim>\<open>OverflowError\<close>) is the parameter \<open>conv\<close>.
\<close>

fun py_float :: "(pyval \<Rightarrow> error + pyfloat) \<Rightarrow> pyval \<Rightarrow> error + pyfloat" where
  "py_float conv (VFloat f) = Inr f"
| "py_float conv VNone = Inl TypeError"
| "py_float conv (VList xs) = Inl TypeError"
| "py_float conv v = conv v"

section \<open>Module globals\<close>

text \<open>The double written \<^verbatim>\<open>1.2\<close> in the source.\<close>

definition DEFAULT_ADC_MAX_VOLTS :: pyfloat where
  "DEFAULT_ADC_MAX_VOLTS = Finite (5404319552844595 / 4503599627370496)"

text \<open>
  The device helper (\<^verbatim>\<open>xbee_helper.ZigBee\<close>) is outside the module: each of
  its three methods is a function from the arguments of the call to the value
  returned or the exception raised. \<open>'r\<close> is the type of the raw pin levels,
  \<open>'m\<close> the type of the ADC conversion modes.
\<close>

record ('r, 'm) device =
  get_gpio_pin :: "pyval \<Rightarrow> string option \<Rightarrow> error + 'r"
  set_gpio_pin :: "pyval \<Rightarrow> 'r \<Rightarrow> string option \<Rightarrow> error + unit"
  read_analog_pin :: "pyval \<Rightarrow> pyfloat \<Rightarrow> string option \<Rightarrow> 'm \<Rightarrow> error + pyval"

text \<open>
  The globals that \<^verbatim>\<open>setup()\<close> assigns. \<open>DEVICE\<close> is \<open>None\<close> until
  \<^verbatim>\<open>setup()\<close> has opened the serial port.
\<close>

record ('r, 'm) globals =
  GPIO_DIGITAL_OUTPUT_LOW :: 'r
  GPIO_DIGITAL_OUTPUT_HIGH :: 'r
  ADC_PERCENTAGE :: 'm
  DEVICE :: "('r, 'm) device option"

section \<open>Configuration classes\<close>

record ZigBeeConfig =
  priv_config :: config
  priv_should_poll :: pyval

definition ZigBeeConfig_init :: "config \<Rightarrow> ZigBeeConfig" where
  "ZigBeeConfig_init config =
     \<lparr>priv_config = config, priv_should_poll = dict_get config ''poll'' (VBool True)\<rparr>"

definition name :: "'a ZigBeeConfig_scheme \<Rightarrow> error + pyval" where
  "name self = dict_getitem (priv_config self) ''name''"

definition address :: "'a ZigBeeConfig_scheme \<Rightarrow> error + string option" where
  "address self =
     (case dict_get (priv_config self) ''address'' VNone of
        VNone \<Rightarrow> Inr None
      | v \<Rightarrow> (case unhexlify v of Inl e \<Rightarrow> Inl e | Inr bs \<Rightarrow> Inr (Some bs)))"

definition should_poll :: "'a ZigBeeConfig_scheme \<Rightarrow> pyval" where
  "should_poll self = priv_should_poll self"

text \<open>\<^verbatim>\<open>ZigBeePinConfig\<close> adds the property \<^verbatim>\<open>pin\<close> and no constructor.\<close>

definition pin :: "'a ZigBeeConfig_scheme \<Rightarrow> error + pyval" where
  "pin self = dict_getitem (priv_config self) ''pin''"

record 'r ZigBeeDigitalPinConfig = ZigBeeConfig +
  priv_bool2state :: "(bool \<times> 'r) list"
  priv_state2bool :: "'r \<rightharpoonup> bool"

text \<open>
  The dictionary \<^verbatim>\<open>bool2state\<close> is the list of its items in insertion
  order; the comprehension \<^verbatim>\<open>{v: k for k, v in bool2state.items()}\<close> stores
  them one after the other, a later item replacing an earlier one under the
  same key (which of the two items comes later matters only when the LOW and
  the HIGH level are the same object).
\<close>

definition boolean_maps ::
  "('r, 'm) globals \<Rightarrow> 'a ZigBeeConfig_scheme \<Rightarrow> error + ((bool \<times> 'r) list \<times> ('r \<rightharpoonup> bool))" where
  "boolean_maps g self =
     (case py_lower (dict_get (priv_config self) ''on_state'' (VStr '''')) of
        Inl e \<Rightarrow> Inl e
      | Inr lowered \<Rightarrow>
          (let bool2state =
                 (if lowered = VStr ''low''
                  then [(True, GPIO_DIGITAL_OUTPUT_LOW g), (False, GPIO_DIGITAL_OUTPUT_HIGH g)]
                  else [(True, GPIO_DIGITAL_OUTPUT_HIGH g), (False, GPIO_DIGITAL_OUTPUT_LOW g)]);
               state2bool = fold (\<lambda>(k, v) m. m(v \<mapsto> k)) bool2state Map.empty
           in Inr (bool2state, state2bool)))"

definition ZigBeeDigitalPinConfig_init ::
  "('r, 'm) globals \<Rightarrow> config \<Rightarrow> error + 'r ZigBeeDigitalPinConfig" where
  "ZigBeeDigitalPinConfig_init g config =
     (let self = ZigBeeConfig_init config in
      case boolean_maps g self of
        Inl e \<Rightarrow> Inl e
      | Inr (b2s, s2b) \<Rightarrow>
          Inr \<lparr>priv_config = priv_config self, priv_should_poll = priv_should_poll self,
               priv_bool2state = b2s, priv_state2bool = s2b\<rparr>)"

definition bool2state :: "'r ZigBeeDigitalPinConfig \<Rightarrow> (bool \<times> 'r) list" where
  "bool2state self = priv_bool2state self"

definition state2bool :: "'r ZigBeeDigitalPinConfig \<Rightarrow> ('r \<rightharpoonup> bool)" where
  "state2bool self = priv_state2bool self"

text \<open>\<^verbatim>\<open>ZigBeeDigitalInConfig = ZigBeeDigitalPinConfig\<close>\<close>

abbreviation ZigBeeDigitalInConfig_init ::
  "('r, 'm) globals \<Rightarrow> config \<Rightarrow> error + 'r ZigBeeDigitalPinConfig" where
  "ZigBeeDigitalInConfig_init \<equiv> ZigBeeDigitalPinConfig_init"

definition ZigBeeDigitalOutConfig_init ::
  "('r, 'm) globals \<Rightarrow> config \<Rightarrow> error + 'r ZigBeeDigitalPinConfig" where
  "ZigBeeDigitalOutConfig_init g config =
     (case ZigBeeDigitalPinConfig_init g config of
        Inl e \<Rightarrow> Inl e
      | Inr self \<Rightarrow> Inr (self\<lparr>priv_should_poll := dict_get config ''poll'' (VBool False)\<rparr>))"

text \<open>\<^verbatim>\<open>ZigBeeAnalogInConfig\<close> has the constructor of \<^verbatim>\<open>ZigBeeConfig\<close>.\<close>

abbreviation ZigBeeAnalogInConfig_init :: "config \<Rightarrow> ZigBeeConfig" where
  "ZigBeeAnalogInConfig_init \<equiv> ZigBeeConfig_init"

definition max_voltage ::
  "(pyval \<Rightarrow> error + pyfloat) \<Rightarrow> 'a ZigBeeConfig_scheme \<Rightarrow> error + pyfloat" where
  "max_voltage conv self =
     py_float conv (dict_get (priv_config self) ''max_volts'' (VFloat DEFAULT_ADC_MAX_VOLTS))"

section \<open>Entities\<close>

text \<open>
  What an operation does to the world outside the entity is recorded as a
  list of events, in the order in which they happen: the calls made to the
  device helper, the job handed to the worker pool by a constructor, and the
  notification \<^verbatim>\<open>update_ha_state()\<close> of the host platform. The worker pool
  and the host platform are outside the module: their two methods are taken
  to return.
\<close>

datatype ('r, 'm) event =
    AddJob
  | CallGetGpioPin pyval "string option"
  | CallSetGpioPin pyval 'r "string option"
  | CallReadAnalogPin pyval pyfloat "string option" 'm
  | UpdateHaState

text \<open>
  An operation on an entity returns normally or raises; in both cases the
  entity object is left in some state and some events have happened.
\<close>

type_synonym ('e, 'r, 'm) outcome = "(error + unit) \<times> 'e \<times> ('r, 'm) event list"

subsection \<open>\<^verbatim>\<open>ZigBeeDigitalIn\<close> and \<^verbatim>\<open>ZigBeeDigitalOut\<close>\<close>

record 'r ZigBeeDigitalIn =
  din_config :: "'r ZigBeeDigitalPinConfig"
  din_state :: bool

definition ZigBeeDigitalIn_init ::
  "'r ZigBeeDigitalPinConfig \<Rightarrow> 'r ZigBeeDigitalIn \<times> ('r, 'm) event list" where
  "ZigBeeDigitalIn_init config = (\<lparr>din_config = config, din_state = False\<rparr>, [AddJob])"

definition ZigBeeDigitalIn_name :: "'r ZigBeeDigitalIn \<Rightarrow> error + pyval" where
  "ZigBeeDigitalIn_name self = name (din_config self)"

definition ZigBeeDigitalIn_should_poll :: "'r ZigBeeDigitalIn \<Rightarrow> pyval" where
  "ZigBeeDigitalIn_should_poll self = should_poll (din_config self)"

definition is_on :: "'r ZigBeeDigitalIn \<Rightarrow> bool" where
  "is_on self = din_state self"

text \<open>
  \<^verbatim>\<open>update\<close>: the attribute \<^verbatim>\<open>DEVICE.get_gpio_pin\<close> is looked up first,
  then the arguments are evaluated from left to right, then the call is made,
  then its result is looked up in \<^verbatim>\<open>state2bool\<close>, then the attribute is
  assigned.
\<close>

definition ZigBeeDigitalIn_update ::
  "('r, 'm) globals \<Rightarrow> 'r ZigBeeDigitalIn \<Rightarrow> ('r ZigBeeDigitalIn, 'r, 'm) outcome" where
  "ZigBeeDigitalIn_update g self =
     (case DEVICE g of
        None \<Rightarrow> (Inl AttributeError, self, [])
      | Some d \<Rightarrow>
     (case pin (din_config self) of
        Inl e \<Rightarrow> (Inl e, self, [])
      | Inr p \<Rightarrow>
     (case address (din_config self) of
        Inl e \<Rightarrow> (Inl e, self, [])
      | Inr a \<Rightarrow>
     (case get_gpio_pin d p a of
        Inl e \<Rightarrow> (Inl e, self, [CallGetGpioPin p a])
      | Inr pin_state \<Rightarrow>
     (case state2bool (din_config self) pin_state of
        None \<Rightarrow> (Inl KeyError, self, [CallGetGpioPin p a])
      | Some b \<Rightarrow> (Inr (), self\<lparr>din_state := b\<rparr>, [CallGetGpioPin p a]))))))"

text \<open>
  \<^verbatim>\<open>ZigBeeDigitalOut._set_state\<close>. The class adds no attribute to
  \<^verbatim>\<open>ZigBeeDigitalIn\<close>, so an output entity is a value of the same record,
  and it inherits \<^verbatim>\<open>should_poll\<close> from \<^verbatim>\<open>ZigBeeDigitalIn\<close>, which comes
  first in its method resolution order.
\<close>

definition ZigBeeDigitalOut_set_state ::
  "('r, 'm) globals \<Rightarrow> 'r ZigBeeDigitalIn \<Rightarrow> bool \<Rightarrow> ('r ZigBeeDigitalIn, 'r, 'm) outcome" where
  "ZigBeeDigitalOut_set_state g self state =
     (case DEVICE g of
        None \<Rightarrow> (Inl AttributeError, self, [])
      | Some d \<Rightarrow>
     (case pin (din_config self) of
        Inl e \<Rightarrow> (Inl e, self, [])
      | Inr p \<Rightarrow>
     (case map_of (bool2state (din_config self)) state of
        None \<Rightarrow> (Inl KeyError, self, [])
      | Some raw \<Rightarrow>
     (case address (din_config self) of
        Inl e \<Rightarrow> (Inl e, self, [])
      | Inr a \<Rightarrow>
     (case set_gpio_pin d p raw a of
        Inl e \<Rightarrow> (Inl e, self, [CallSetGpioPin p raw a])
      | Inr u \<Rightarrow>
          (let self' = self\<lparr>din_state := state\<rparr> in
           if \<not> py_truthy (ZigBeeDigitalIn_should_poll self')
           then (Inr (), self', [CallSetGpioPin p raw a, UpdateHaState])
           else (Inr (), self', [CallSetGpioPin p raw a])))))))"

definition turn_on ::
  "('r, 'm) globals \<Rightarrow> 'r ZigBeeDigitalIn \<Rightarrow> ('r ZigBeeDigitalIn, 'r, 'm) outcome" where
  "turn_on g self = ZigBeeDigitalOut_set_state g self True"

definition turn_off ::
  "('r, 'm) globals \<Rightarrow> 'r ZigBeeDigitalIn \<Rightarrow> ('r ZigBeeDigitalIn, 'r, 'm) outcome" where
  "turn_off g self = ZigBeeDigitalOut_set_state g self False"

subsection \<open>\<^verbatim>\<open>ZigBeeAnalogIn\<close>\<close>

record ZigBeeAnalogIn =
  ain_config :: ZigBeeConfig
  ain_value :: pyval

definition ZigBeeAnalogIn_init :: "ZigBeeConfig \<Rightarrow> ZigBeeAnalogIn \<times> ('r, 'm) event list" where
  "ZigBeeAnalogIn_init config = (\<lparr>ain_config = config, ain_value = VNone\<rparr>, [AddJob])"

definition ZigBeeAnalogIn_state :: "ZigBeeAnalogIn \<Rightarrow> pyval" where
  "ZigBeeAnalogIn_state self = ain_value self"

definition unit_of_measurement :: "ZigBeeAnalogIn \<Rightarrow> string" where
  "unit_of_measurement self = ''%''"

definition ZigBeeAnalogIn_update ::
  "(pyval \<Rightarrow> error + pyfloat) \<Rightarrow> ('r, 'm) globals \<Rightarrow> ZigBeeAnalogIn \<Rightarrow>
     (ZigBeeAnalogIn, 'r, 'm) outcome" where
  "ZigBeeAnalogIn_update conv g self =
     (case DEVICE g of
        None \<Rightarrow> (Inl AttributeError, self, [])
      | Some d \<Rightarrow>
     (case pin (ain_config self) of
        Inl e \<Rightarrow> (Inl e, self, [])
      | Inr p \<Rightarrow>
     (case max_voltage conv (ain_config self) of
        Inl e \<Rightarrow> (Inl e, self, [])
      | Inr mv \<Rightarrow>
     (case address (ain_config self) of
        Inl e \<Rightarrow> (Inl e, self, [])
      | Inr a \<Rightarrow>
     (case read_analog_pin d p mv a (ADC_PERCENTAGE g) of
        Inl e \<Rightarrow> (Inl e, self, [CallReadAnalogPin p mv a (ADC_PERCENTAGE g)])
      | Inr v \<Rightarrow>
          (Inr (), self\<lparr>ain_value := v\<rparr>, [CallReadAnalogPin p mv a (ADC_PERCENTAGE g)]))))))"

section \<open>A test installation\<close>

text \<open>
  Concrete objects at which the theorems below are instantiated: a device
  helper that answers every read of a digital pin with \<open>r\<close>, every write
  with \<open>w\<close> and every read of an analog pin with \<open>v\<close>, and the globals after
  a \<^verbatim>\<open>setup()\<close> that took the levels 4 (low) and 5 (high) from the helper
  library.
\<close>

definition test_device :: "error + nat \<Rightarrow> error + unit \<Rightarrow> error + pyval \<Rightarrow> (nat, unit) device" where
  "test_device r w v =
     \<lparr>get_gpio_pin = (\<lambda>p a. r), set_gpio_pin = (\<lambda>p raw a. w),
      read_analog_pin = (\<lambda>p mv a m. v)\<rparr>"

definition test_globals :: "(nat, unit) device \<Rightarrow> (nat, unit) globals" where
  "test_globals d =
     \<lparr>GPIO_DIGITAL_OUTPUT_LOW = 4, GPIO_DIGITAL_OUTPUT_HIGH = 5, ADC_PERCENTAGE = (),
      DEVICE = Some d\<rparr>"

section \<open>Facts about the built-in operations\<close>

text \<open>\<open>str_lower s = ''low''\<close> holds for the eight spellings of the word and no other text.\<close>

lemma of_char_lower_char:
  "(of_char (lower_char c) :: nat) =
     (if 65 \<le> (of_char c :: nat) \<and> (of_char c :: nat) \<le> 90 then of_char c + 32 else of_char c)"
  by (simp add: lower_char_def Let_def)

lemma lower_char_eq_iff:
  assumes "(of_char x :: nat) = n" "(of_char y :: nat) = n - 32" "97 \<le> n" "n \<le> 122"
  shows "lower_char c = x \<longleftrightarrow> c = x \<or> c = y"
proof -
  have a: "lower_char c = x \<longleftrightarrow> (of_char (lower_char c) :: nat) = n"
    using assms(1) of_char_eq_iff by metis
  have b: "c = x \<longleftrightarrow> (of_char c :: nat) = n"
    using assms(1) of_char_eq_iff by metis
  have d: "c = y \<longleftrightarrow> (of_char c :: nat) = n - 32"
    using assms(2) of_char_eq_iff by metis
  show ?thesis
    unfolding a b d of_char_lower_char using assms by auto
qed

lemma str_lower_low_iff:
  "str_lower s = ''low'' \<longleftrightarrow>
     s \<in> {''low'', ''loW'', ''lOw'', ''lOW'', ''Low'', ''LoW'', ''LOw'', ''LOW''}"
proof -
  have l: "\<And>c. lower_char c = CHR ''l'' \<longleftrightarrow> c = CHR ''l'' \<or> c = CHR ''L''"
    by (rule lower_char_eq_iff [where n = 108]) simp_all
  have o: "\<And>c. lower_char c = CHR ''o'' \<longleftrightarrow> c = CHR ''o'' \<or> c = CHR ''O''"
    by (rule lower_char_eq_iff [where n = 111]) simp_all
  have w: "\<And>c. lower_char c = CHR ''w'' \<longleftrightarrow> c = CHR ''w'' \<or> c = CHR ''W''"
    by (rule lower_char_eq_iff [where n = 119]) simp_all
  show ?thesis
  proof (cases s)
    case Nil
    then show ?thesis by (simp add: str_lower_def)
  next
    case (Cons a s1)
    show ?thesis
    proof (cases s1)
      case Nil then show ?thesis using Cons by (simp add: str_lower_def)
    next
      case (Cons b s2)
      note c2 = this
      show ?thesis
      proof (cases s2)
        case Nil then show ?thesis using \<open>s = a # s1\<close> c2 by (simp add: str_lower_def)
      next
        case (Cons c s3)
        show ?thesis using \<open>s = a # s1\<close> c2 Cons 
          by (cases s3) (auto simp add: str_lower_def l o w)
      qed
    qed
  qed
qed

section \<open>Facts about the constructors\<close>

text \<open>
  What a digital configuration holds once its constructor has returned: the
  mapping it was given, the polling flag, and one of the two pairs of tables.
\<close>

lemma init_Inr_iff:
  "ZigBeeDigitalPinConfig_init g config = Inr c \<longleftrightarrow>
     (\<exists>b2s s2b. boolean_maps g (ZigBeeConfig_init config) = Inr (b2s, s2b) \<and>
        c = \<lparr>priv_config = config, priv_should_poll = dict_get config ''poll'' (VBool True),
             priv_bool2state = b2s, priv_state2bool = s2b\<rparr>)"
  by (auto simp add: ZigBeeDigitalPinConfig_init_def ZigBeeConfig_init_def Let_def split: sum.splits)

lemma boolean_maps_Inr:
  assumes "boolean_maps g self = Inr (b2s, s2b)"
  shows "(b2s = [(True, GPIO_DIGITAL_OUTPUT_LOW g), (False, GPIO_DIGITAL_OUTPUT_HIGH g)] \<and>
          s2b = [GPIO_DIGITAL_OUTPUT_LOW g \<mapsto> True, GPIO_DIGITAL_OUTPUT_HIGH g \<mapsto> False]) \<or>
         (b2s = [(True, GPIO_DIGITAL_OUTPUT_HIGH g), (False, GPIO_DIGITAL_OUTPUT_LOW g)] \<and>
          s2b = [GPIO_DIGITAL_OUTPUT_HIGH g \<mapsto> True, GPIO_DIGITAL_OUTPUT_LOW g \<mapsto> False])"
  using assms by (auto simp add: boolean_maps_def Let_def split: sum.splits if_splits)

lemma out_init_Inr_iff:
  "ZigBeeDigitalOutConfig_init g config = Inr c \<longleftrightarrow>
     (\<exists>c0. ZigBeeDigitalPinConfig_init g config = Inr c0 \<and>
        c = c0\<lparr>priv_should_poll := dict_get config ''poll'' (VBool False)\<rparr>)"
  by (auto simp add: ZigBeeDigitalOutConfig_init_def split: sum.splits)

lemma built_maps:
  assumes "ZigBeeDigitalPinConfig_init g config = Inr c \<or> ZigBeeDigitalOutConfig_init g config = Inr c"
  shows "(bool2state c = [(True, GPIO_DIGITAL_OUTPUT_LOW g), (False, GPIO_DIGITAL_OUTPUT_HIGH g)] \<and>
          state2bool c = [GPIO_DIGITAL_OUTPUT_LOW g \<mapsto> True, GPIO_DIGITAL_OUTPUT_HIGH g \<mapsto> False]) \<or>
         (bool2state c = [(True, GPIO_DIGITAL_OUTPUT_HIGH g), (False, GPIO_DIGITAL_OUTPUT_LOW g)] \<and>
          state2bool c = [GPIO_DIGITAL_OUTPUT_HIGH g \<mapsto> True, GPIO_DIGITAL_OUTPUT_LOW g \<mapsto> False])"
  using assms
  by (auto simp add: init_Inr_iff out_init_Inr_iff bool2state_def state2bool_def
        dest: boolean_maps_Inr)

lemma init_text:
  assumes "py_lower (dict_get config ''on_state'' (VStr [])) = Inr lowered"
  shows "ZigBeeDigitalPinConfig_init g config =
           Inr \<lparr>priv_config = config, priv_should_poll = dict_get config ''poll'' (VBool True),
                priv_bool2state =
                  (if lowered = VStr ''low''
                   then [(True, GPIO_DIGITAL_OUTPUT_LOW g), (False, GPIO_DIGITAL_OUTPUT_HIGH g)]
                   else [(True, GPIO_DIGITAL_OUTPUT_HIGH g), (False, GPIO_DIGITAL_OUTPUT_LOW g)]),
                priv_state2bool =
                  (if lowered = VStr ''low''
                   then [GPIO_DIGITAL_OUTPUT_LOW g \<mapsto> True, GPIO_DIGITAL_OUTPUT_HIGH g \<mapsto> False]
                   else [GPIO_DIGITAL_OUTPUT_HIGH g \<mapsto> True, GPIO_DIGITAL_OUTPUT_LOW g \<mapsto> False])\<rparr>"
  using assms
  by (simp add: ZigBeeDigitalPinConfig_init_def ZigBeeConfig_init_def boolean_maps_def)

lemma init_no_text:
  assumes "py_lower (dict_get config ''on_state'' (VStr [])) = Inl e"
  shows "ZigBeeDigitalPinConfig_init g config = Inl e"
  using assms
  by (simp add: ZigBeeDigitalPinConfig_init_def ZigBeeConfig_init_def boolean_maps_def)

lemma str_lower_Nil: "str_lower [] \<noteq> ''low''"
  by (simp add: str_lower_def)

lemma built_lookup:
  assumes "ZigBeeDigitalPinConfig_init g config = Inr c \<or> ZigBeeDigitalOutConfig_init g config = Inr c"
  shows "\<exists>raw. map_of (bool2state c) b = Some raw"
  using built_maps [OF assms] by auto

section \<open>Polarity\<close>

text \<open>
  Claim C1, as the code has it. A digital pin configuration whose
  \<^verbatim>\<open>on_state\<close> is a text that lower-cases to \<^verbatim>\<open>low\<close> maps \<open>True\<close> to the
  LOW level and \<open>False\<close> to the HIGH level. When \<^verbatim>\<open>on_state\<close> is absent, or
  any other text, or a byte string, \<open>True\<close> maps to HIGH and \<open>False\<close> to LOW
  and the constructor returns normally. When \<^verbatim>\<open>on_state\<close> is a value
  without a method \<^verbatim>\<open>lower\<close> (\<^verbatim>\<open>None\<close>, a boolean, a number, a list), the
  constructor raises \<^verbatim>\<open>AttributeError\<close>.
\<close>

theorem polarity_forward:
  "(config ''on_state'' = Some (VStr s) \<and> str_lower s = ''low'' \<longrightarrow>
      (\<exists>c. ZigBeeDigitalPinConfig_init g config = Inr c \<and>
           map_of (bool2state c) True = Some (GPIO_DIGITAL_OUTPUT_LOW g) \<and>
           map_of (bool2state c) False = Some (GPIO_DIGITAL_OUTPUT_HIGH g))) \<and>
   (config ''on_state'' = None \<or>
    config ''on_state'' = Some (VStr s) \<and> str_lower s \<noteq> ''low'' \<or>
    config ''on_state'' = Some (VBytes s) \<longrightarrow>
      (\<exists>c. ZigBeeDigitalPinConfig_init g config = Inr c \<and>
           map_of (bool2state c) True = Some (GPIO_DIGITAL_OUTPUT_HIGH g) \<and>
           map_of (bool2state c) False = Some (GPIO_DIGITAL_OUTPUT_LOW g))) \<and>
   (config ''on_state'' = Some v \<and> (\<forall>t. v \<noteq> VStr t \<and> v \<noteq> VBytes t) \<longrightarrow>
      ZigBeeDigitalPinConfig_init g config = Inl AttributeError)"
proof (intro conjI impI)
  assume "config ''on_state'' = Some (VStr s) \<and> str_lower s = ''low''"
  then have "py_lower (dict_get config ''on_state'' (VStr [])) = Inr (VStr ''low'')"
    by (simp add: dict_get_def)
  from init_text [OF this, of g]
  show "\<exists>c. ZigBeeDigitalPinConfig_init g config = Inr c \<and>
           map_of (bool2state c) True = Some (GPIO_DIGITAL_OUTPUT_LOW g) \<and>
           map_of (bool2state c) False = Some (GPIO_DIGITAL_OUTPUT_HIGH g)"
    by (simp add: bool2state_def)
next
  assume "config ''on_state'' = None \<or>
    config ''on_state'' = Some (VStr s) \<and> str_lower s \<noteq> ''low'' \<or>
    config ''on_state'' = Some (VBytes s)"
  then obtain lowered where
    "py_lower (dict_get config ''on_state'' (VStr [])) = Inr lowered" "lowered \<noteq> VStr ''low''"
    using str_lower_Nil by (auto simp add: dict_get_def)
  from init_text [OF this(1), of g] this(2)
  show "\<exists>c. ZigBeeDigitalPinConfig_init g config = Inr c \<and>
           map_of (bool2state c) True = Some (GPIO_DIGITAL_OUTPUT_HIGH g) \<and>
           map_of (bool2state c) False = Some (GPIO_DIGITAL_OUTPUT_LOW g)"
    by (simp add: bool2state_def)
next
  assume a: "config ''on_state'' = Some v \<and> (\<forall>t. v \<noteq> VStr t \<and> v \<noteq> VBytes t)"
  then have "py_lower v = Inl AttributeError"
    by (cases v) simp_all
  with a have "py_lower (dict_get config ''on_state'' (VStr [])) = Inl AttributeError"
    by (simp add: dict_get_def)
  then show "ZigBeeDigitalPinConfig_init g config = Inl AttributeError"
    by (rule init_no_text)
qed

theorem polarity_forward_witness:
  "str_lower ''LOW'' = ''low'' \<and>
   map_of (bool2state (projr (ZigBeeDigitalPinConfig_init
       \<lparr>GPIO_DIGITAL_OUTPUT_LOW = 4 :: nat, GPIO_DIGITAL_OUTPUT_HIGH = 5,
        ADC_PERCENTAGE = (), DEVICE = None\<rparr>
       [''on_state'' \<mapsto> VStr ''LOW'']))) True = Some 4 \<and>
   map_of (bool2state (projr (ZigBeeDigitalPinConfig_init
       \<lparr>GPIO_DIGITAL_OUTPUT_LOW = 4 :: nat, GPIO_DIGITAL_OUTPUT_HIGH = 5,
        ADC_PERCENTAGE = (), DEVICE = None\<rparr>
       [''on_state'' \<mapsto> VStr ''LOW'']))) False = Some 5 \<and>
   map_of (bool2state (projr (ZigBeeDigitalPinConfig_init
       \<lparr>GPIO_DIGITAL_OUTPUT_LOW = 4 :: nat, GPIO_DIGITAL_OUTPUT_HIGH = 5,
        ADC_PERCENTAGE = (), DEVICE = None\<rparr>
       [''on_state'' \<mapsto> VStr ''up'']))) True = Some 5 \<and>
   map_of (bool2state (projr (ZigBeeDigitalPinConfig_init
       \<lparr>GPIO_DIGITAL_OUTPUT_LOW = 4 :: nat, GPIO_DIGITAL_OUTPUT_HIGH = 5,
        ADC_PERCENTAGE = (), DEVICE = None\<rparr>
       Map.empty))) False = Some 4 \<and>
   ZigBeeDigitalPinConfig_init
       \<lparr>GPIO_DIGITAL_OUTPUT_LOW = 4 :: nat, GPIO_DIGITAL_OUTPUT_HIGH = 5,
        ADC_PERCENTAGE = (), DEVICE = None\<rparr>
       [''on_state'' \<mapsto> VInt 1] = Inl AttributeError"
proof -
  let ?g = "\<lparr>GPIO_DIGITAL_OUTPUT_LOW = 4 :: nat, GPIO_DIGITAL_OUTPUT_HIGH = 5,
             ADC_PERCENTAGE = (), DEVICE = None\<rparr>"
  have l: "str_lower ''LOW'' = ''low''"
    by (simp add: str_lower_low_iff)
  have u: "str_lower ''up'' \<noteq> ''low''"
    by (simp add: str_lower_def)
  from l polarity_forward [of "[''on_state'' \<mapsto> VStr ''LOW'']" "''LOW''" ?g VNone]
  have a: "map_of (bool2state (projr (ZigBeeDigitalPinConfig_init ?g
              [''on_state'' \<mapsto> VStr ''LOW'']))) True = Some 4 \<and>
           map_of (bool2state (projr (ZigBeeDigitalPinConfig_init ?g
              [''on_state'' \<mapsto> VStr ''LOW'']))) False = Some 5"
    by auto
  from u polarity_forward [of "[''on_state'' \<mapsto> VStr ''up'']" "''up''" ?g VNone]
  have b: "map_of (bool2state (projr (ZigBeeDigitalPinConfig_init ?g
              [''on_state'' \<mapsto> VStr ''up'']))) True = Some 5"
    by auto
  from polarity_forward [of Map.empty "[]" ?g VNone]
  have c: "map_of (bool2state (projr (ZigBeeDigitalPinConfig_init ?g Map.empty))) False = Some 4"
    by auto
  from polarity_forward [of "[''on_state'' \<mapsto> VInt 1]" "[]" ?g "VInt 1"]
  have d: "ZigBeeDigitalPinConfig_init ?g [''on_state'' \<mapsto> VInt 1] = Inl AttributeError"
    by simp
  from l a b c d show ?thesis
    by simp
qed

text \<open>
  The claim as the specification words it (no error for any unrecognised
  value) fails for \<^verbatim>\<open>on_state: off\<close>, which the YAML loader reads as the
  boolean \<open>False\<close>: a boolean has no method \<^verbatim>\<open>lower\<close>.
\<close>

theorem polarity_forward_counterexample:
  "ZigBeeDigitalPinConfig_init
     \<lparr>GPIO_DIGITAL_OUTPUT_LOW = 4 :: nat, GPIO_DIGITAL_OUTPUT_HIGH = 5,
      ADC_PERCENTAGE = (), DEVICE = None\<rparr>
     [''name'' \<mapsto> VStr ''Lamp'', ''pin'' \<mapsto> VStr ''D0'', ''on_state'' \<mapsto> VBool False]
   = Inl AttributeError"
  by (simp add: ZigBeeDigitalPinConfig_init_def ZigBeeConfig_init_def boolean_maps_def
        dict_get_def)

text \<open>
  Claim C2. In every digital pin configuration built while the LOW and HIGH
  levels differ, \<^verbatim>\<open>state2bool\<close> is the inverse of \<^verbatim>\<open>bool2state\<close>: looking
  a boolean up in \<^verbatim>\<open>bool2state\<close> and the result in \<^verbatim>\<open>state2bool\<close> gives the
  boolean back, looking one of the two levels up in \<^verbatim>\<open>state2bool\<close> and the
  result in \<^verbatim>\<open>bool2state\<close> gives the level back, and \<^verbatim>\<open>state2bool\<close> has no
  other key.
\<close>

theorem polarity_inverse:
  assumes "ZigBeeDigitalInConfig_init g config = Inr c \<or>
           ZigBeeDigitalOutConfig_init g config = Inr c"
    and "GPIO_DIGITAL_OUTPUT_LOW g \<noteq> GPIO_DIGITAL_OUTPUT_HIGH g"
  shows "(\<forall>b. \<exists>r. map_of (bool2state c) b = Some r \<and> state2bool c r = Some b) \<and>
         (\<forall>r \<in> {GPIO_DIGITAL_OUTPUT_LOW g, GPIO_DIGITAL_OUTPUT_HIGH g}.
            \<exists>b. state2bool c r = Some b \<and> map_of (bool2state c) b = Some r) \<and>
         dom (state2bool c) = {GPIO_DIGITAL_OUTPUT_LOW g, GPIO_DIGITAL_OUTPUT_HIGH g}"
  using built_maps [OF assms(1)] assms(2) by (auto split: if_splits)

theorem polarity_inverse_witness:
  "ZigBeeDigitalOutConfig_init
     \<lparr>GPIO_DIGITAL_OUTPUT_LOW = 4 :: nat, GPIO_DIGITAL_OUTPUT_HIGH = 5,
      ADC_PERCENTAGE = (), DEVICE = None\<rparr>
     [''on_state'' \<mapsto> VStr ''low'']
   = Inr \<lparr>priv_config = [''on_state'' \<mapsto> VStr ''low''], priv_should_poll = VBool False,
          priv_bool2state = [(True, 4), (False, 5)],
          priv_state2bool = [4 \<mapsto> True, 5 \<mapsto> False]\<rparr> \<and>
   (4 :: nat) \<noteq> 5 \<and>
   dom (state2bool
     \<lparr>priv_config = [''on_state'' \<mapsto> VStr ''low''], priv_should_poll = VBool False,
      priv_bool2state = [(True, 4 :: nat), (False, 5)],
      priv_state2bool = [4 \<mapsto> True, 5 \<mapsto> False]\<rparr>) = {4, 5} \<and>
   state2bool
     \<lparr>priv_config = [''on_state'' \<mapsto> VStr ''low''], priv_should_poll = VBool False,
      priv_bool2state = [(True, 4 :: nat), (False, 5)],
      priv_state2bool = [4 \<mapsto> True, 5 \<mapsto> False]\<rparr> 4 = Some True"
proof -
  let ?g = "\<lparr>GPIO_DIGITAL_OUTPUT_LOW = 4 :: nat, GPIO_DIGITAL_OUTPUT_HIGH = 5,
             ADC_PERCENTAGE = (), DEVICE = None\<rparr>"
  let ?c = "\<lparr>priv_config = [''on_state'' \<mapsto> VStr ''low''], priv_should_poll = VBool False,
             priv_bool2state = [(True, 4 :: nat), (False, 5)],
             priv_state2bool = [4 \<mapsto> True, 5 \<mapsto> False]\<rparr>"
  have h: "ZigBeeDigitalOutConfig_init ?g [''on_state'' \<mapsto> VStr ''low''] = Inr ?c"
    by (simp add: ZigBeeDigitalOutConfig_init_def ZigBeeDigitalPinConfig_init_def
          ZigBeeConfig_init_def boolean_maps_def dict_get_def str_lower_def lower_char_def)
  have n: "GPIO_DIGITAL_OUTPUT_LOW ?g \<noteq> GPIO_DIGITAL_OUTPUT_HIGH ?g"
    by simp
  from polarity_inverse [OF disjI2 [OF h] n]
  have "dom (state2bool ?c) = {4, 5}"
    by simp
  moreover have "state2bool ?c 4 = Some True"
    by (simp add: state2bool_def)
  ultimately show ?thesis
    using h by simp
qed

section \<open>Polling policy\<close>

text \<open>
  Claim C3. Without a key \<^verbatim>\<open>poll\<close> an analog-input and a digital-input
  configuration have \<^verbatim>\<open>should_poll\<close> equal to \<open>True\<close> and a digital-output
  configuration has it equal to \<open>False\<close>; with the key, \<^verbatim>\<open>should_poll\<close> is
  the value stored under it, for each of the three kinds.
\<close>

theorem default_polling:
  "should_poll (ZigBeeAnalogInConfig_init config) =
     (case config ''poll'' of None \<Rightarrow> VBool True | Some v \<Rightarrow> v) \<and>
   (ZigBeeDigitalInConfig_init g config = Inr c \<longrightarrow>
      should_poll c = (case config ''poll'' of None \<Rightarrow> VBool True | Some v \<Rightarrow> v)) \<and>
   (ZigBeeDigitalOutConfig_init g config = Inr c' \<longrightarrow>
      should_poll c' = (case config ''poll'' of None \<Rightarrow> VBool False | Some v \<Rightarrow> v))"
  by (auto simp add: init_Inr_iff out_init_Inr_iff should_poll_def ZigBeeConfig_init_def
        dict_get_def)

theorem default_polling_witness:
  "should_poll (ZigBeeAnalogInConfig_init Map.empty) = VBool True \<and>
   should_poll (projr (ZigBeeDigitalInConfig_init
       \<lparr>GPIO_DIGITAL_OUTPUT_LOW = 4 :: nat, GPIO_DIGITAL_OUTPUT_HIGH = 5,
        ADC_PERCENTAGE = (), DEVICE = None\<rparr> Map.empty)) = VBool True \<and>
   should_poll (projr (ZigBeeDigitalOutConfig_init
       \<lparr>GPIO_DIGITAL_OUTPUT_LOW = 4 :: nat, GPIO_DIGITAL_OUTPUT_HIGH = 5,
        ADC_PERCENTAGE = (), DEVICE = None\<rparr> Map.empty)) = VBool False \<and>
   should_poll (projr (ZigBeeDigitalInConfig_init
       \<lparr>GPIO_DIGITAL_OUTPUT_LOW = 4 :: nat, GPIO_DIGITAL_OUTPUT_HIGH = 5,
        ADC_PERCENTAGE = (), DEVICE = None\<rparr> [''poll'' \<mapsto> VBool False])) = VBool False \<and>
   should_poll (projr (ZigBeeDigitalOutConfig_init
       \<lparr>GPIO_DIGITAL_OUTPUT_LOW = 4 :: nat, GPIO_DIGITAL_OUTPUT_HIGH = 5,
        ADC_PERCENTAGE = (), DEVICE = None\<rparr> [''poll'' \<mapsto> VBool True])) = VBool True"
proof -
  let ?g = "\<lparr>GPIO_DIGITAL_OUTPUT_LOW = 4 :: nat, GPIO_DIGITAL_OUTPUT_HIGH = 5,
             ADC_PERCENTAGE = (), DEVICE = None\<rparr>"
  have e: "\<And>cfg. cfg ''on_state'' = None \<Longrightarrow>
             ZigBeeDigitalInConfig_init ?g cfg = Inr (projr (ZigBeeDigitalInConfig_init ?g cfg)) \<and>
             ZigBeeDigitalOutConfig_init ?g cfg = Inr (projr (ZigBeeDigitalOutConfig_init ?g cfg))"
    by (simp add: ZigBeeDigitalOutConfig_init_def ZigBeeDigitalPinConfig_init_def
          ZigBeeConfig_init_def boolean_maps_def dict_get_def str_lower_def)
  have e0: "ZigBeeDigitalInConfig_init ?g Map.empty =
              Inr (projr (ZigBeeDigitalInConfig_init ?g Map.empty)) \<and>
            ZigBeeDigitalOutConfig_init ?g Map.empty =
              Inr (projr (ZigBeeDigitalOutConfig_init ?g Map.empty))"
    by (rule e) simp
  have e1: "ZigBeeDigitalInConfig_init ?g [''poll'' \<mapsto> VBool False] =
              Inr (projr (ZigBeeDigitalInConfig_init ?g [''poll'' \<mapsto> VBool False]))"
    using e [of "[''poll'' \<mapsto> VBool False]"] by simp
  have e2: "ZigBeeDigitalOutConfig_init ?g [''poll'' \<mapsto> VBool True] =
              Inr (projr (ZigBeeDigitalOutConfig_init ?g [''poll'' \<mapsto> VBool True]))"
    using e [of "[''poll'' \<mapsto> VBool True]"] by simp
  show ?thesis
    using e0 e1 e2
      default_polling [of Map.empty ?g "projr (ZigBeeDigitalInConfig_init ?g Map.empty)"
        "projr (ZigBeeDigitalOutConfig_init ?g Map.empty)"]
      default_polling [of "[''poll'' \<mapsto> VBool False]" ?g
        "projr (ZigBeeDigitalInConfig_init ?g [''poll'' \<mapsto> VBool False])" undefined]
      default_polling [of "[''poll'' \<mapsto> VBool True]" ?g undefined
        "projr (ZigBeeDigitalOutConfig_init ?g [''poll'' \<mapsto> VBool True])"]
    by simp
qed

section \<open>Analog maximum voltage\<close>

text \<open>
  Claim C4. Without a key \<^verbatim>\<open>max_volts\<close> the maximum voltage of an
  analog-input configuration is the double \<^verbatim>\<open>1.2\<close>. A text stored under the
  key is handed to \<^verbatim>\<open>float\<close>, so with \<^verbatim>\<open>float("3.3")\<close> being the double
  \<^verbatim>\<open>3.3\<close> the maximum voltage is \<^verbatim>\<open>3.3\<close>. A float stored under the key is
  returned whatever its sign, and an integer is handed to \<^verbatim>\<open>float\<close>
  whatever its sign: zero and negative values are not rejected.
\<close>

theorem analog_max_voltage:
  "(config ''max_volts'' = None \<longrightarrow>
      max_voltage conv (ZigBeeAnalogInConfig_init config) =
        Inr (Finite (5404319552844595 / 4503599627370496))) \<and>
   (config ''max_volts'' = Some (VStr t) \<longrightarrow>
      max_voltage conv (ZigBeeAnalogInConfig_init config) = conv (VStr t)) \<and>
   (config ''max_volts'' = Some (VStr ''3.3'') \<and>
    conv (VStr ''3.3'') = Inr (Finite (3715469692580659 / 1125899906842624)) \<longrightarrow>
      max_voltage conv (ZigBeeAnalogInConfig_init config) =
        Inr (Finite (3715469692580659 / 1125899906842624))) \<and>
   (config ''max_volts'' = Some (VFloat f) \<longrightarrow>
      max_voltage conv (ZigBeeAnalogInConfig_init config) = Inr f) \<and>
   (config ''max_volts'' = Some (VInt i) \<longrightarrow>
      max_voltage conv (ZigBeeAnalogInConfig_init config) = conv (VInt i))"
  by (simp add: max_voltage_def ZigBeeConfig_init_def dict_get_def DEFAULT_ADC_MAX_VOLTS_def)

theorem analog_max_voltage_witness:
  "max_voltage (\<lambda>v. Inl ValueError) (ZigBeeAnalogInConfig_init Map.empty) =
     Inr (Finite (5404319552844595 / 4503599627370496)) \<and>
   max_voltage
     (\<lambda>v. if v = VStr ''3.3'' then Inr (Finite (3715469692580659 / 1125899906842624))
           else Inl ValueError)
     (ZigBeeAnalogInConfig_init [''max_volts'' \<mapsto> VStr ''3.3'']) =
     Inr (Finite (3715469692580659 / 1125899906842624)) \<and>
   max_voltage (\<lambda>v. Inl ValueError)
     (ZigBeeAnalogInConfig_init [''max_volts'' \<mapsto> VFloat (Finite (- 1))]) =
     Inr (Finite (- 1)) \<and>
   max_voltage (\<lambda>v. Inl ValueError)
     (ZigBeeAnalogInConfig_init [''max_volts'' \<mapsto> VFloat (Finite 0)]) =
     Inr (Finite 0)"
  using
    analog_max_voltage [of Map.empty "\<lambda>v. Inl ValueError" "[]" PosInf 0]
    analog_max_voltage [of "[''max_volts'' \<mapsto> VStr ''3.3'']"
      "\<lambda>v. if v = VStr ''3.3'' then Inr (Finite (3715469692580659 / 1125899906842624))
            else Inl ValueError" "''3.3''" PosInf 0]
    analog_max_voltage [of "[''max_volts'' \<mapsto> VFloat (Finite (- 1))]"
      "\<lambda>v. Inl ValueError" "[]" "Finite (- 1)" 0]
    analog_max_voltage [of "[''max_volts'' \<mapsto> VFloat (Finite 0)]"
      "\<lambda>v. Inl ValueError" "[]" "Finite 0" 0]
  by simp

section \<open>Digital output: writing\<close>

text \<open>
  Claim C5. Take an entity whose configuration was built by one of the
  digital constructors, a desired boolean and any cached state, and let the
  pin and the address be readable. Then \<^verbatim>\<open>bool2state\<close> has a raw level for
  the desired boolean, and when the helper's write of that level returns,
  \<^verbatim>\<open>_set_state\<close> returns with the cached state equal to the desired
  boolean; the events are the write alone when \<^verbatim>\<open>should_poll\<close> is true, and
  the write followed by the notification when it is false.
\<close>

theorem set_state_success:
  assumes "ZigBeeDigitalInConfig_init g config = Inr (din_config self) \<or>
           ZigBeeDigitalOutConfig_init g config = Inr (din_config self)"
    and "DEVICE g = Some d"
    and "pin (din_config self) = Inr p"
    and "address (din_config self) = Inr a"
  shows "\<exists>raw. map_of (bool2state (din_config self)) desired = Some raw \<and>
           (set_gpio_pin d p raw a = Inr () \<longrightarrow>
              ZigBeeDigitalOut_set_state g self desired =
                (Inr (), self\<lparr>din_state := desired\<rparr>,
                 if py_truthy (ZigBeeDigitalIn_should_poll self)
                 then [CallSetGpioPin p raw a]
                 else [CallSetGpioPin p raw a, UpdateHaState]))"
proof -
  obtain raw where r: "map_of (bool2state (din_config self)) desired = Some raw"
    using built_lookup [OF assms(1)] by blast
  have "set_gpio_pin d p raw a = Inr () \<longrightarrow>
          ZigBeeDigitalOut_set_state g self desired =
            (Inr (), self\<lparr>din_state := desired\<rparr>,
             if py_truthy (ZigBeeDigitalIn_should_poll self)
             then [CallSetGpioPin p raw a]
             else [CallSetGpioPin p raw a, UpdateHaState])"
    using assms(2-) r
    by (simp add: ZigBeeDigitalOut_set_state_def ZigBeeDigitalIn_should_poll_def)
  with r show ?thesis
    by blast
qed

theorem set_state_success_witness:
  "ZigBeeDigitalOut_set_state (test_globals (test_device (Inr 4) (Inr ()) (Inr VNone)))
     \<lparr>din_config = projr (ZigBeeDigitalOutConfig_init
          (test_globals (test_device (Inr 4) (Inr ()) (Inr VNone)))
          [''name'' \<mapsto> VStr ''Lamp'', ''pin'' \<mapsto> VStr ''D0'', ''on_state'' \<mapsto> VStr ''low'']),
      din_state = False\<rparr> True =
     (Inr (),
      \<lparr>din_config = projr (ZigBeeDigitalOutConfig_init
          (test_globals (test_device (Inr 4) (Inr ()) (Inr VNone)))
          [''name'' \<mapsto> VStr ''Lamp'', ''pin'' \<mapsto> VStr ''D0'', ''on_state'' \<mapsto> VStr ''low'']),
       din_state = True\<rparr>,
      [CallSetGpioPin (VStr ''D0'') 4 None, UpdateHaState]) \<and>
   ZigBeeDigitalOut_set_state (test_globals (test_device (Inr 4) (Inr ()) (Inr VNone)))
     \<lparr>din_config = projr (ZigBeeDigitalOutConfig_init
          (test_globals (test_device (Inr 4) (Inr ()) (Inr VNone)))
          [''name'' \<mapsto> VStr ''Lamp'', ''pin'' \<mapsto> VStr ''D0'', ''poll'' \<mapsto> VBool True]),
      din_state = True\<rparr> False =
     (Inr (),
      \<lparr>din_config = projr (ZigBeeDigitalOutConfig_init
          (test_globals (test_device (Inr 4) (Inr ()) (Inr VNone)))
          [''name'' \<mapsto> VStr ''Lamp'', ''pin'' \<mapsto> VStr ''D0'', ''poll'' \<mapsto> VBool True]),
       din_state = False\<rparr>,
      [CallSetGpioPin (VStr ''D0'') 4 None])"
proof -
  let ?d = "test_device (Inr 4) (Inr ()) (Inr VNone)"
  let ?g = "test_globals ?d"
  let ?lamp = "[''name'' \<mapsto> VStr ''Lamp'', ''pin'' \<mapsto> VStr ''D0'', ''on_state'' \<mapsto> VStr ''low'']"
  let ?polled = "[''name'' \<mapsto> VStr ''Lamp'', ''pin'' \<mapsto> VStr ''D0'', ''poll'' \<mapsto> VBool True]"
  let ?c1 = "\<lparr>priv_config = ?lamp, priv_should_poll = VBool False,
              priv_bool2state = [(True, 4 :: nat), (False, 5)],
              priv_state2bool = [4 \<mapsto> True, 5 \<mapsto> False]\<rparr>"
  let ?c2 = "\<lparr>priv_config = ?polled, priv_should_poll = VBool True,
              priv_bool2state = [(True, 5 :: nat), (False, 4)],
              priv_state2bool = [5 \<mapsto> True, 4 \<mapsto> False]\<rparr>"
  have c1: "ZigBeeDigitalOutConfig_init ?g ?lamp = Inr ?c1"
    by (simp add: ZigBeeDigitalOutConfig_init_def ZigBeeDigitalPinConfig_init_def
          ZigBeeConfig_init_def boolean_maps_def dict_get_def str_lower_def lower_char_def
          test_globals_def)
  have c2: "ZigBeeDigitalOutConfig_init ?g ?polled = Inr ?c2"
    by (simp add: ZigBeeDigitalOutConfig_init_def ZigBeeDigitalPinConfig_init_def
          ZigBeeConfig_init_def boolean_maps_def dict_get_def str_lower_def
          test_globals_def)
  have dev: "DEVICE ?g = Some ?d"
    by (simp add: test_globals_def)
  have w: "\<And>p raw a. set_gpio_pin ?d p raw a = Inr ()"
    by (simp add: test_device_def)
  have p1: "pin ?c1 = Inr (VStr ''D0'')" and a1: "address ?c1 = Inr None"
    by (simp_all add: pin_def address_def dict_getitem_def dict_get_def)
  have p2: "pin ?c2 = Inr (VStr ''D0'')" and a2: "address ?c2 = Inr None"
    by (simp_all add: pin_def address_def dict_getitem_def dict_get_def)
  have s1: "ZigBeeDigitalOut_set_state ?g \<lparr>din_config = ?c1, din_state = False\<rparr> True =
              (Inr (), \<lparr>din_config = ?c1, din_state = True\<rparr>,
               [CallSetGpioPin (VStr ''D0'') 4 None, UpdateHaState])"
    using set_state_success [of ?g ?lamp "\<lparr>din_config = ?c1, din_state = False\<rparr>" ?d
        "VStr ''D0''" None True] c1 dev p1 a1 w
    by (simp add: bool2state_def ZigBeeDigitalIn_should_poll_def should_poll_def)
  have s2: "ZigBeeDigitalOut_set_state ?g \<lparr>din_config = ?c2, din_state = True\<rparr> False =
              (Inr (), \<lparr>din_config = ?c2, din_state = False\<rparr>,
               [CallSetGpioPin (VStr ''D0'') 4 None])"
    using set_state_success [of ?g ?polled "\<lparr>din_config = ?c2, din_state = True\<rparr>" ?d
        "VStr ''D0''" None False] c2 dev p2 a2 w
    by (simp add: bool2state_def ZigBeeDigitalIn_should_poll_def should_poll_def)
  show ?thesis
    using s1 s2 by (simp add: c1 c2)
qed

text \<open>
  Claim C6. In the same setting, when the helper's write raises, \<^verbatim>\<open>_set_state\<close>
  raises the same exception, the entity is left as it was (its cached state
  included) and the only event is the attempted write: no notification.
\<close>

theorem set_state_failure:
  assumes "ZigBeeDigitalInConfig_init g config = Inr (din_config self) \<or>
           ZigBeeDigitalOutConfig_init g config = Inr (din_config self)"
    and "DEVICE g = Some d"
    and "pin (din_config self) = Inr p"
    and "address (din_config self) = Inr a"
  shows "\<exists>raw. map_of (bool2state (din_config self)) desired = Some raw \<and>
           (\<forall>e. set_gpio_pin d p raw a = Inl e \<longrightarrow>
              ZigBeeDigitalOut_set_state g self desired =
                (Inl e, self, [CallSetGpioPin p raw a]))"
proof -
  obtain raw where r: "map_of (bool2state (din_config self)) desired = Some raw"
    using built_lookup [OF assms(1)] by blast
  have "\<forall>e. set_gpio_pin d p raw a = Inl e \<longrightarrow>
          ZigBeeDigitalOut_set_state g self desired = (Inl e, self, [CallSetGpioPin p raw a])"
    using assms(2-) r
    by (simp add: ZigBeeDigitalOut_set_state_def)
  with r show ?thesis
    by blast
qed

theorem set_state_failure_witness:
  "ZigBeeDigitalOut_set_state
     (test_globals (test_device (Inr 4) (Inl (DriverError ''timeout'')) (Inr VNone)))
     \<lparr>din_config = projr (ZigBeeDigitalOutConfig_init
          (test_globals (test_device (Inr 4) (Inl (DriverError ''timeout'')) (Inr VNone)))
          [''name'' \<mapsto> VStr ''Lamp'', ''pin'' \<mapsto> VStr ''D0'', ''on_state'' \<mapsto> VStr ''low'']),
      din_state = False\<rparr> True =
     (Inl (DriverError ''timeout''),
      \<lparr>din_config = projr (ZigBeeDigitalOutConfig_init
          (test_globals (test_device (Inr 4) (Inl (DriverError ''timeout'')) (Inr VNone)))
          [''name'' \<mapsto> VStr ''Lamp'', ''pin'' \<mapsto> VStr ''D0'', ''on_state'' \<mapsto> VStr ''low'']),
       din_state = False\<rparr>,
      [CallSetGpioPin (VStr ''D0'') 4 None])"
proof -
  let ?d = "test_device (Inr 4) (Inl (DriverError ''timeout'')) (Inr VNone)"
  let ?g = "test_globals ?d"
  let ?lamp = "[''name'' \<mapsto> VStr ''Lamp'', ''pin'' \<mapsto> VStr ''D0'', ''on_state'' \<mapsto> VStr ''low'']"
  let ?c1 = "\<lparr>priv_config = ?lamp, priv_should_poll = VBool False,
              priv_bool2state = [(True, 4 :: nat), (False, 5)],
              priv_state2bool = [4 \<mapsto> True, 5 \<mapsto> False]\<rparr>"
  have c1: "ZigBeeDigitalOutConfig_init ?g ?lamp = Inr ?c1"
    by (simp add: ZigBeeDigitalOutConfig_init_def ZigBeeDigitalPinConfig_init_def
          ZigBeeConfig_init_def boolean_maps_def dict_get_def str_lower_def lower_char_def
          test_globals_def)
  have dev: "DEVICE ?g = Some ?d"
    by (simp add: test_globals_def)
  have w: "\<And>p raw a. set_gpio_pin ?d p raw a = Inl (DriverError ''timeout'')"
    by (simp add: test_device_def)
  have p1: "pin ?c1 = Inr (VStr ''D0'')" and a1: "address ?c1 = Inr None"
    by (simp_all add: pin_def address_def dict_getitem_def dict_get_def)
  have s1: "ZigBeeDigitalOut_set_state ?g \<lparr>din_config = ?c1, din_state = False\<rparr> True =
              (Inl (DriverError ''timeout''), \<lparr>din_config = ?c1, din_state = False\<rparr>,
               [CallSetGpioPin (VStr ''D0'') 4 None])"
    using set_state_failure [of ?g ?lamp "\<lparr>din_config = ?c1, din_state = False\<rparr>" ?d
        "VStr ''D0''" None True] c1 dev p1 a1 w
    by (simp add: bool2state_def)
  show ?thesis
    using s1 by (simp add: c1)
qed

section \<open>Digital input: reading\<close>

text \<open>
  Claim C7. Take an entity whose configuration was built by one of the
  digital constructors and let the helper answer the read with a raw level.
  When the level is neither the LOW nor the HIGH level, \<^verbatim>\<open>update\<close> raises
  (the failed dictionary lookup is a \<^verbatim>\<open>KeyError\<close>) and leaves the entity
  as it was; it does not pick a boolean. When the level is one of the two,
  \<^verbatim>\<open>update\<close> returns and the cached state is what \<^verbatim>\<open>state2bool\<close> holds for
  the level.
\<close>

theorem digital_update:
  assumes "ZigBeeDigitalInConfig_init g config = Inr (din_config self) \<or>
           ZigBeeDigitalOutConfig_init g config = Inr (din_config self)"
    and "DEVICE g = Some d"
    and "pin (din_config self) = Inr p"
    and "address (din_config self) = Inr a"
    and "get_gpio_pin d p a = Inr lvl"
  shows "(lvl \<notin> {GPIO_DIGITAL_OUTPUT_LOW g, GPIO_DIGITAL_OUTPUT_HIGH g} \<longrightarrow>
            ZigBeeDigitalIn_update g self = (Inl KeyError, self, [CallGetGpioPin p a])) \<and>
         (lvl \<in> {GPIO_DIGITAL_OUTPUT_LOW g, GPIO_DIGITAL_OUTPUT_HIGH g} \<longrightarrow>
            (\<exists>b. state2bool (din_config self) lvl = Some b \<and>
                 ZigBeeDigitalIn_update g self =
                   (Inr (), self\<lparr>din_state := b\<rparr>, [CallGetGpioPin p a])))"
  using built_maps [OF assms(1)] assms(2-)
  by (auto simp add: ZigBeeDigitalIn_update_def)

theorem digital_update_witness:
  "ZigBeeDigitalIn_update (test_globals (test_device (Inr 7) (Inr ()) (Inr VNone)))
     \<lparr>din_config = projr (ZigBeeDigitalInConfig_init
          (test_globals (test_device (Inr 7) (Inr ()) (Inr VNone)))
          [''name'' \<mapsto> VStr ''Lamp'', ''pin'' \<mapsto> VStr ''D0'', ''on_state'' \<mapsto> VStr ''low'']),
      din_state = True\<rparr> =
     (Inl KeyError,
      \<lparr>din_config = projr (ZigBeeDigitalInConfig_init
          (test_globals (test_device (Inr 7) (Inr ()) (Inr VNone)))
          [''name'' \<mapsto> VStr ''Lamp'', ''pin'' \<mapsto> VStr ''D0'', ''on_state'' \<mapsto> VStr ''low'']),
       din_state = True\<rparr>,
      [CallGetGpioPin (VStr ''D0'') None]) \<and>
   ZigBeeDigitalIn_update (test_globals (test_device (Inr 4) (Inr ()) (Inr VNone)))
     \<lparr>din_config = projr (ZigBeeDigitalInConfig_init
          (test_globals (test_device (Inr 4) (Inr ()) (Inr VNone)))
          [''name'' \<mapsto> VStr ''Lamp'', ''pin'' \<mapsto> VStr ''D0'', ''on_state'' \<mapsto> VStr ''low'']),
      din_state = False\<rparr> =
     (Inr (),
      \<lparr>din_config = projr (ZigBeeDigitalInConfig_init
          (test_globals (test_device (Inr 4) (Inr ()) (Inr VNone)))
          [''name'' \<mapsto> VStr ''Lamp'', ''pin'' \<mapsto> VStr ''D0'', ''on_state'' \<mapsto> VStr ''low'']),
       din_state = True\<rparr>,
      [CallGetGpioPin (VStr ''D0'') None])"
proof -
  let ?d7 = "test_device (Inr 7) (Inr ()) (Inr VNone)"
  let ?d4 = "test_device (Inr 4) (Inr ()) (Inr VNone)"
  let ?lamp = "[''name'' \<mapsto> VStr ''Lamp'', ''pin'' \<mapsto> VStr ''D0'', ''on_state'' \<mapsto> VStr ''low'']"
  let ?c1 = "\<lparr>priv_config = ?lamp, priv_should_poll = VBool True,
              priv_bool2state = [(True, 4 :: nat), (False, 5)],
              priv_state2bool = [4 \<mapsto> True, 5 \<mapsto> False]\<rparr>"
  have c1: "\<And>d. ZigBeeDigitalInConfig_init (test_globals d) ?lamp = Inr ?c1"
    by (simp add: ZigBeeDigitalPinConfig_init_def
          ZigBeeConfig_init_def boolean_maps_def dict_get_def str_lower_def lower_char_def
          test_globals_def)
  have dev: "\<And>d. DEVICE (test_globals d) = Some d"
    by (simp add: test_globals_def)
  have lv: "GPIO_DIGITAL_OUTPUT_LOW (test_globals ?d7) = 4"
    "GPIO_DIGITAL_OUTPUT_HIGH (test_globals ?d7) = 5"
    "GPIO_DIGITAL_OUTPUT_LOW (test_globals ?d4) = 4"
    "GPIO_DIGITAL_OUTPUT_HIGH (test_globals ?d4) = 5"
    by (simp_all add: test_globals_def)
  have r7: "get_gpio_pin ?d7 (VStr ''D0'') None = Inr 7"
    and r4: "get_gpio_pin ?d4 (VStr ''D0'') None = Inr 4"
    by (simp_all add: test_device_def)
  have p1: "pin ?c1 = Inr (VStr ''D0'')" and a1: "address ?c1 = Inr None"
    by (simp_all add: pin_def address_def dict_getitem_def dict_get_def)
  have s7: "ZigBeeDigitalIn_update (test_globals ?d7) \<lparr>din_config = ?c1, din_state = True\<rparr> =
              (Inl KeyError, \<lparr>din_config = ?c1, din_state = True\<rparr>,
               [CallGetGpioPin (VStr ''D0'') None])"
    using digital_update [of "test_globals ?d7" ?lamp "\<lparr>din_config = ?c1, din_state = True\<rparr>"
        ?d7 "VStr ''D0''" None 7] c1 dev p1 a1 r7 lv
    by simp
  have s4: "ZigBeeDigitalIn_update (test_globals ?d4) \<lparr>din_config = ?c1, din_state = False\<rparr> =
              (Inr (), \<lparr>din_config = ?c1, din_state = True\<rparr>,
               [CallGetGpioPin (VStr ''D0'') None])"
    using digital_update [of "test_globals ?d4" ?lamp "\<lparr>din_config = ?c1, din_state = False\<rparr>"
        ?d4 "VStr ''D0''" None 4] c1 dev p1 a1 r4 lv
    by (auto simp add: state2bool_def)
  show ?thesis
    using s7 s4 by (simp add: c1)
qed

section \<open>Address and required fields\<close>

text \<open>
  Claim C8, as the code has it. \<^verbatim>\<open>address\<close> is a property: the
  constructors store the mapping as it is and never look at the key
  \<^verbatim>\<open>address\<close>, so whether a constructor returns does not depend on it.
  Each read of the property gives \<^verbatim>\<open>None\<close> when the key is absent (or
  holds \<^verbatim>\<open>None\<close>) and otherwise decodes the value with \<^verbatim>\<open>unhexlify\<close>; a
  value that is no hexadecimal text makes the read raise, and \<^verbatim>\<open>update\<close>
  then raises that exception before it calls the helper, leaving the entity
  as it was.
\<close>

theorem address_decoding:
  "address (ZigBeeConfig_init config) =
     (case config ''address'' of
        None \<Rightarrow> Inr None
      | Some VNone \<Rightarrow> Inr None
      | Some v \<Rightarrow> (case unhexlify v of Inl e \<Rightarrow> Inl e | Inr bs \<Rightarrow> Inr (Some bs))) \<and>
   (ZigBeeDigitalPinConfig_init g config = Inr c \<longrightarrow>
      priv_config c = config \<and> address c = address (ZigBeeConfig_init config)) \<and>
   isl (ZigBeeDigitalPinConfig_init g (config(''address'' := x))) =
     isl (ZigBeeDigitalPinConfig_init g config) \<and>
   (DEVICE g = Some d \<and> pin (din_config self) = Inr p \<and> address (din_config self) = Inl e \<longrightarrow>
      ZigBeeDigitalIn_update g self = (Inl e, self, []))"
proof (intro conjI impI)
  show "address (ZigBeeConfig_init config) =
     (case config ''address'' of
        None \<Rightarrow> Inr None
      | Some VNone \<Rightarrow> Inr None
      | Some v \<Rightarrow> (case unhexlify v of Inl e \<Rightarrow> Inl e | Inr bs \<Rightarrow> Inr (Some bs)))"
    by (simp add: address_def ZigBeeConfig_init_def dict_get_def
          split: option.splits pyval.splits)
next
  assume "ZigBeeDigitalPinConfig_init g config = Inr c"
  then show "priv_config c = config"
    by (auto simp add: init_Inr_iff)
next
  assume "ZigBeeDigitalPinConfig_init g config = Inr c"
  then show "address c = address (ZigBeeConfig_init config)"
    by (auto simp add: init_Inr_iff address_def ZigBeeConfig_init_def)
next
  show "isl (ZigBeeDigitalPinConfig_init g (config(''address'' := x))) =
          isl (ZigBeeDigitalPinConfig_init g config)"
    by (simp add: ZigBeeDigitalPinConfig_init_def ZigBeeConfig_init_def boolean_maps_def
          dict_get_def Let_def split: sum.splits)
next
  assume "DEVICE g = Some d \<and> pin (din_config self) = Inr p \<and> address (din_config self) = Inl e"
  then show "ZigBeeDigitalIn_update g self = (Inl e, self, [])"
    by (simp add: ZigBeeDigitalIn_update_def)
qed

theorem address_decoding_witness:
  "address (ZigBeeConfig_init [''name'' \<mapsto> VStr ''Lamp'', ''pin'' \<mapsto> VStr ''D0'']) = Inr None \<and>
   address (ZigBeeConfig_init [''pin'' \<mapsto> VStr ''D0'', ''address'' \<mapsto> VStr ''0013a2Ff'']) =
     Inr (Some [CHR 0x00, CHR 0x13, CHR 0xA2, CHR 0xFF]) \<and>
   address (projr (ZigBeeDigitalPinConfig_init
       (test_globals (test_device (Inr 4) (Inr ()) (Inr VNone)))
       [''pin'' \<mapsto> VStr ''D0'', ''address'' \<mapsto> VStr ''0g''])) = Inl BinasciiError \<and>
   ZigBeeDigitalIn_update (test_globals (test_device (Inr 4) (Inr ()) (Inr VNone)))
     \<lparr>din_config = projr (ZigBeeDigitalPinConfig_init
          (test_globals (test_device (Inr 4) (Inr ()) (Inr VNone)))
          [''pin'' \<mapsto> VStr ''D0'', ''address'' \<mapsto> VStr ''0g'']),
      din_state = False\<rparr> =
     (Inl BinasciiError,
      \<lparr>din_config = projr (ZigBeeDigitalPinConfig_init
          (test_globals (test_device (Inr 4) (Inr ()) (Inr VNone)))
          [''pin'' \<mapsto> VStr ''D0'', ''address'' \<mapsto> VStr ''0g'']),
       din_state = False\<rparr>,
      [])"
proof -
  let ?d = "test_device (Inr 4) (Inr ()) (Inr VNone)"
  let ?g = "test_globals ?d"
  let ?bad = "[''pin'' \<mapsto> VStr ''D0'', ''address'' \<mapsto> VStr ''0g'']"
  let ?c = "\<lparr>priv_config = ?bad, priv_should_poll = VBool True,
             priv_bool2state = [(True, 5 :: nat), (False, 4)],
             priv_state2bool = [5 \<mapsto> True, 4 \<mapsto> False]\<rparr>"
  have c: "ZigBeeDigitalPinConfig_init ?g ?bad = Inr ?c"
    by (simp add: ZigBeeDigitalPinConfig_init_def
          ZigBeeConfig_init_def boolean_maps_def dict_get_def str_lower_def
          test_globals_def)
  have dev: "DEVICE ?g = Some ?d"
    by (simp add: test_globals_def)
  have p: "pin ?c = Inr (VStr ''D0'')"
    by (simp add: pin_def dict_getitem_def)
  have u: "unhexlify (VStr ''0g'') = Inl BinasciiError"
    by (simp add: hex_digit_def)
  have h: "unhexlify (VStr ''0013a2Ff'') = Inr [CHR 0x00, CHR 0x13, CHR 0xA2, CHR 0xFF]"
    by (simp add: hex_digit_def char_of_def bit_0)
  have a0: "address (ZigBeeConfig_init [''name'' \<mapsto> VStr ''Lamp'', ''pin'' \<mapsto> VStr ''D0'']) =
              Inr None"
    using address_decoding [of "[''name'' \<mapsto> VStr ''Lamp'', ''pin'' \<mapsto> VStr ''D0'']"
        ?g undefined undefined undefined undefined undefined undefined]
    by simp
  have a1: "address (ZigBeeConfig_init [''pin'' \<mapsto> VStr ''D0'', ''address'' \<mapsto> VStr ''0013a2Ff'']) =
              Inr (Some [CHR 0x00, CHR 0x13, CHR 0xA2, CHR 0xFF])"
    using address_decoding [of "[''pin'' \<mapsto> VStr ''D0'', ''address'' \<mapsto> VStr ''0013a2Ff'']"
        ?g undefined undefined undefined undefined undefined undefined] h
    by simp
  have a2: "address ?c = Inl BinasciiError"
    using address_decoding [of ?bad ?g ?c undefined ?d "\<lparr>din_config = ?c, din_state = False\<rparr>"
        "VStr ''D0''" BinasciiError] c u
    by simp
  have a3: "ZigBeeDigitalIn_update ?g \<lparr>din_config = ?c, din_state = False\<rparr> =
              (Inl BinasciiError, \<lparr>din_config = ?c, din_state = False\<rparr>, [])"
    using address_decoding [of ?bad ?g ?c undefined ?d "\<lparr>din_config = ?c, din_state = False\<rparr>"
        "VStr ''D0''" BinasciiError] dev p a2
    by simp
  show ?thesis
    using a0 a1 a2 a3 by (simp add: c)
qed

text \<open>
  The claim as the specification words it (an invalid address is an error of
  the constructor) fails: the constructor returns a configuration for the
  address \<^verbatim>\<open>zz\<close>, and the error is raised when the property is read.
\<close>

theorem address_decoding_counterexample:
  "ZigBeeDigitalPinConfig_init
     \<lparr>GPIO_DIGITAL_OUTPUT_LOW = 4 :: nat, GPIO_DIGITAL_OUTPUT_HIGH = 5,
      ADC_PERCENTAGE = (), DEVICE = None\<rparr>
     [''name'' \<mapsto> VStr ''Lamp'', ''pin'' \<mapsto> VStr ''D0'', ''address'' \<mapsto> VStr ''zz'']
   = Inr \<lparr>priv_config =
            [''name'' \<mapsto> VStr ''Lamp'', ''pin'' \<mapsto> VStr ''D0'', ''address'' \<mapsto> VStr ''zz''],
          priv_should_poll = VBool True,
          priv_bool2state = [(True, 5), (False, 4)],
          priv_state2bool = [5 \<mapsto> True, 4 \<mapsto> False]\<rparr> \<and>
   address
     \<lparr>priv_config =
        [''name'' \<mapsto> VStr ''Lamp'', ''pin'' \<mapsto> VStr ''D0'', ''address'' \<mapsto> VStr ''zz''],
      priv_should_poll = VBool True,
      priv_bool2state = [(True, 5 :: nat), (False, 4)],
      priv_state2bool = [5 \<mapsto> True, 4 \<mapsto> False]\<rparr> = Inl BinasciiError"
  by (simp add: ZigBeeDigitalPinConfig_init_def ZigBeeConfig_init_def boolean_maps_def
        dict_get_def str_lower_def address_def hex_digit_def)

text \<open>
  Claim C9, as the code has it. \<^verbatim>\<open>pin\<close> and \<^verbatim>\<open>name\<close> are properties: the
  constructors never look at the two keys, so whether a constructor returns
  does not depend on them, and the entity constructor stores the
  configuration without reading it. A missing key makes the read of its
  property raise \<^verbatim>\<open>KeyError\<close>. \<^verbatim>\<open>update\<close> reads \<^verbatim>\<open>pin\<close>: when that read
  raises, \<^verbatim>\<open>update\<close> raises the same exception before it calls the helper
  and leaves the entity as it was. The property \<^verbatim>\<open>name\<close> of the entity reads
  \<^verbatim>\<open>name\<close> of the configuration and raises what that read raises.
  \<^verbatim>\<open>update\<close> does not read \<^verbatim>\<open>name\<close>: changing or removing the key changes
  nothing in what \<^verbatim>\<open>update\<close> returns, raises or calls.
\<close>

theorem missing_required_fields:
  "(config ''pin'' = None \<longrightarrow> pin (ZigBeeConfig_init config) = Inl KeyError) \<and>
   (config ''name'' = None \<longrightarrow> name (ZigBeeConfig_init config) = Inl KeyError) \<and>
   (ZigBeeDigitalPinConfig_init (g :: ('r, 'm) globals) config = Inr c \<longrightarrow>
      pin c = pin (ZigBeeConfig_init config) \<and> name c = name (ZigBeeConfig_init config)) \<and>
   isl (ZigBeeDigitalPinConfig_init g (config(''pin'' := x, ''name'' := y))) =
     isl (ZigBeeDigitalPinConfig_init g config) \<and>
   fst (ZigBeeDigitalIn_init c :: 'r ZigBeeDigitalIn \<times> ('r, 'm) event list) =
     \<lparr>din_config = c, din_state = False\<rparr> \<and>
   (DEVICE g = Some d \<and> pin (din_config self) = Inl e \<longrightarrow>
      ZigBeeDigitalIn_update g self = (Inl e, self, [])) \<and>
   (name (din_config self) = Inl e' \<longrightarrow> ZigBeeDigitalIn_name self = Inl e') \<and>
   ZigBeeDigitalIn_update g
       (self\<lparr>din_config := (din_config self)\<lparr>priv_config :=
          (priv_config (din_config self))(''name'' := n)\<rparr>\<rparr>) =
     (case ZigBeeDigitalIn_update g self of
        (r, self', evs) \<Rightarrow>
          (r, self'\<lparr>din_config := (din_config self')\<lparr>priv_config :=
                 (priv_config (din_config self'))(''name'' := n)\<rparr>\<rparr>, evs))"
proof (intro conjI impI)
  assume "config ''pin'' = None"
  then show "pin (ZigBeeConfig_init config) = Inl KeyError"
    by (simp add: pin_def ZigBeeConfig_init_def dict_getitem_def)
next
  assume "config ''name'' = None"
  then show "name (ZigBeeConfig_init config) = Inl KeyError"
    by (simp add: name_def ZigBeeConfig_init_def dict_getitem_def)
next
  assume "ZigBeeDigitalPinConfig_init g config = Inr c"
  then show "pin c = pin (ZigBeeConfig_init config)"
    by (auto simp add: init_Inr_iff pin_def ZigBeeConfig_init_def)
next
  assume "ZigBeeDigitalPinConfig_init g config = Inr c"
  then show "name c = name (ZigBeeConfig_init config)"
    by (auto simp add: init_Inr_iff name_def ZigBeeConfig_init_def)
next
  show "isl (ZigBeeDigitalPinConfig_init g (config(''pin'' := x, ''name'' := y))) =
          isl (ZigBeeDigitalPinConfig_init g config)"
    by (simp add: ZigBeeDigitalPinConfig_init_def ZigBeeConfig_init_def boolean_maps_def
          dict_get_def Let_def split: sum.splits)
next
  show "fst (ZigBeeDigitalIn_init c :: 'r ZigBeeDigitalIn \<times> ('r, 'm) event list) =
          \<lparr>din_config = c, din_state = False\<rparr>"
    by (simp add: ZigBeeDigitalIn_init_def)
next
  assume "DEVICE g = Some d \<and> pin (din_config self) = Inl e"
  then show "ZigBeeDigitalIn_update g self = (Inl e, self, [])"
    by (simp add: ZigBeeDigitalIn_update_def)
next
  assume "name (din_config self) = Inl e'"
  then show "ZigBeeDigitalIn_name self = Inl e'"
    by (simp add: ZigBeeDigitalIn_name_def)
next
  show "ZigBeeDigitalIn_update g
       (self\<lparr>din_config := (din_config self)\<lparr>priv_config :=
          (priv_config (din_config self))(''name'' := n)\<rparr>\<rparr>) =
     (case ZigBeeDigitalIn_update g self of
        (r, self', evs) \<Rightarrow>
          (r, self'\<lparr>din_config := (din_config self')\<lparr>priv_config :=
                 (priv_config (din_config self'))(''name'' := n)\<rparr>\<rparr>, evs))"
    by (simp add: ZigBeeDigitalIn_update_def pin_def address_def state2bool_def
          dict_getitem_def dict_get_def split: option.splits sum.splits pyval.splits)
qed

theorem missing_required_fields_witness:
  "pin (ZigBeeConfig_init [''name'' \<mapsto> VStr ''Lamp'']) = Inl KeyError \<and>
   name (ZigBeeConfig_init [''pin'' \<mapsto> VStr ''D0'']) = Inl KeyError \<and>
   ZigBeeDigitalPinConfig_init (test_globals (test_device (Inr 5) (Inr ()) (Inr VNone)))
     [''name'' \<mapsto> VStr ''Lamp''] =
     Inr \<lparr>priv_config = [''name'' \<mapsto> VStr ''Lamp''], priv_should_poll = VBool True,
          priv_bool2state = [(True, 5), (False, 4)],
          priv_state2bool = [5 \<mapsto> True, 4 \<mapsto> False]\<rparr> \<and>
   ZigBeeDigitalIn_update (test_globals (test_device (Inr 5) (Inr ()) (Inr VNone)))
     \<lparr>din_config =
        \<lparr>priv_config = [''name'' \<mapsto> VStr ''Lamp''], priv_should_poll = VBool True,
         priv_bool2state = [(True, 5), (False, 4)],
         priv_state2bool = [5 \<mapsto> True, 4 \<mapsto> False]\<rparr>,
      din_state = False\<rparr> =
     (Inl KeyError,
      \<lparr>din_config =
         \<lparr>priv_config = [''name'' \<mapsto> VStr ''Lamp''], priv_should_poll = VBool True,
          priv_bool2state = [(True, 5), (False, 4)],
          priv_state2bool = [5 \<mapsto> True, 4 \<mapsto> False]\<rparr>,
       din_state = False\<rparr>,
      []) \<and>
   ZigBeeDigitalIn_name
     \<lparr>din_config =
        \<lparr>priv_config = [''name'' \<mapsto> VStr ''Lamp'', ''pin'' \<mapsto> VStr ''D0''](''name'' := None),
         priv_should_poll = VBool True,
         priv_bool2state = [(True, 5 :: nat), (False, 4)],
         priv_state2bool = [5 \<mapsto> True, 4 \<mapsto> False]\<rparr>,
      din_state = False\<rparr> = Inl KeyError \<and>
   ZigBeeDigitalIn_update (test_globals (test_device (Inr 5) (Inr ()) (Inr VNone)))
     \<lparr>din_config =
        \<lparr>priv_config = [''name'' \<mapsto> VStr ''Lamp'', ''pin'' \<mapsto> VStr ''D0''](''name'' := None),
         priv_should_poll = VBool True,
         priv_bool2state = [(True, 5), (False, 4)],
         priv_state2bool = [5 \<mapsto> True, 4 \<mapsto> False]\<rparr>,
      din_state = False\<rparr> =
     (Inr (),
      \<lparr>din_config =
         \<lparr>priv_config = [''name'' \<mapsto> VStr ''Lamp'', ''pin'' \<mapsto> VStr ''D0''](''name'' := None),
          priv_should_poll = VBool True,
          priv_bool2state = [(True, 5), (False, 4)],
          priv_state2bool = [5 \<mapsto> True, 4 \<mapsto> False]\<rparr>,
       din_state = True\<rparr>,
      [CallGetGpioPin (VStr ''D0'') None])"
proof -
  let ?d = "test_device (Inr 5) (Inr ()) (Inr VNone)"
  let ?g = "test_globals ?d"
  let ?bad = "[''name'' \<mapsto> VStr ''Lamp'']"
  let ?full = "[''name'' \<mapsto> VStr ''Lamp'', ''pin'' \<mapsto> VStr ''D0'']"
  let ?c = "\<lparr>priv_config = ?bad, priv_should_poll = VBool True,
             priv_bool2state = [(True, 5 :: nat), (False, 4)],
             priv_state2bool = [5 \<mapsto> True, 4 \<mapsto> False]\<rparr>"
  let ?cf = "\<lparr>priv_config = ?full, priv_should_poll = VBool True,
              priv_bool2state = [(True, 5 :: nat), (False, 4)],
              priv_state2bool = [5 \<mapsto> True, 4 \<mapsto> False]\<rparr>"
  let ?cn = "\<lparr>priv_config = ?full(''name'' := None), priv_should_poll = VBool True,
              priv_bool2state = [(True, 5 :: nat), (False, 4)],
              priv_state2bool = [5 \<mapsto> True, 4 \<mapsto> False]\<rparr>"
  note inst = missing_required_fields [where config = ?bad and g = ?g and c = ?c
      and x = None and y = None and d = ?d
      and self = "\<lparr>din_config = ?c, din_state = False\<rparr>"
      and e = KeyError and e' = KeyError and n = None]
  note instn = missing_required_fields [where config = ?bad and g = ?g and c = ?c
      and x = None and y = None and d = ?d
      and self = "\<lparr>din_config = ?cn, din_state = False\<rparr>"
      and e = KeyError and e' = KeyError and n = None]
  note instu = missing_required_fields [where config = ?bad and g = ?g and c = ?c
      and x = None and y = None and d = ?d
      and self = "\<lparr>din_config = ?cf, din_state = False\<rparr>"
      and e = KeyError and e' = KeyError and n = None]
  have c: "ZigBeeDigitalPinConfig_init ?g ?bad = Inr ?c"
    by (simp add: ZigBeeDigitalPinConfig_init_def
          ZigBeeConfig_init_def boolean_maps_def dict_get_def str_lower_def
          test_globals_def)
  have dev: "DEVICE ?g = Some ?d"
    by (simp add: test_globals_def)
  have a0: "pin (ZigBeeConfig_init ?bad) = Inl KeyError"
    using inst by simp
  have a1: "name (ZigBeeConfig_init [''pin'' \<mapsto> VStr ''D0'']) = Inl KeyError"
    using missing_required_fields [where config = "[''pin'' \<mapsto> VStr ''D0'']" and g = ?g
        and c = ?c and x = None and y = None and d = ?d
        and self = "\<lparr>din_config = ?c, din_state = False\<rparr>"
        and e = KeyError and e' = KeyError and n = None]
    by simp
  have a2: "pin ?c = Inl KeyError"
    using inst c a0 by simp
  have a3: "ZigBeeDigitalIn_update ?g \<lparr>din_config = ?c, din_state = False\<rparr> =
              (Inl KeyError, \<lparr>din_config = ?c, din_state = False\<rparr>, [])"
    using inst dev a2 by simp
  have n0: "name ?cn = Inl KeyError"
    by (simp add: name_def dict_getitem_def)
  have a4: "ZigBeeDigitalIn_name \<lparr>din_config = ?cn, din_state = False\<rparr> = Inl KeyError"
    using instn n0 by simp
  have u: "ZigBeeDigitalIn_update ?g \<lparr>din_config = ?cf, din_state = False\<rparr> =
             (Inr (), \<lparr>din_config = ?cf, din_state = True\<rparr>,
              [CallGetGpioPin (VStr ''D0'') None])"
    by (simp add: ZigBeeDigitalIn_update_def test_globals_def test_device_def pin_def
          address_def state2bool_def dict_getitem_def dict_get_def)
  have a5: "ZigBeeDigitalIn_update ?g \<lparr>din_config = ?cn, din_state = False\<rparr> =
              (Inr (), \<lparr>din_config = ?cn, din_state = True\<rparr>,
               [CallGetGpioPin (VStr ''D0'') None])"
    using instu u by simp
  show ?thesis
    using c a0 a1 a3 a4 a5 by simp
qed

text \<open>
  The claim as the specification words it (a missing \<^verbatim>\<open>pin\<close> or \<^verbatim>\<open>name\<close>
  aborts construction) fails: the constructor returns a configuration for the
  empty mapping, the entity constructor returns an entity for it, and the
  errors are raised when the properties are read.
\<close>

theorem missing_required_fields_counterexample:
  "ZigBeeDigitalPinConfig_init
     \<lparr>GPIO_DIGITAL_OUTPUT_LOW = 4 :: nat, GPIO_DIGITAL_OUTPUT_HIGH = 5,
      ADC_PERCENTAGE = (), DEVICE = None\<rparr> Map.empty
   = Inr \<lparr>priv_config = Map.empty, priv_should_poll = VBool True,
          priv_bool2state = [(True, 5), (False, 4)],
          priv_state2bool = [5 \<mapsto> True, 4 \<mapsto> False]\<rparr> \<and>
   fst (ZigBeeDigitalIn_init
     \<lparr>priv_config = Map.empty, priv_should_poll = VBool True,
      priv_bool2state = [(True, 5 :: nat), (False, 4)],
      priv_state2bool = [5 \<mapsto> True, 4 \<mapsto> False]\<rparr>
       :: nat ZigBeeDigitalIn \<times> (nat, unit) event list) =
     \<lparr>din_config =
        \<lparr>priv_config = Map.empty, priv_should_poll = VBool True,
         priv_bool2state = [(True, 5 :: nat), (False, 4)],
         priv_state2bool = [5 \<mapsto> True, 4 \<mapsto> False]\<rparr>,
      din_state = False\<rparr> \<and>
   pin \<lparr>priv_config = Map.empty, priv_should_poll = VBool True,
        priv_bool2state = [(True, 5 :: nat), (False, 4)],
        priv_state2bool = [5 \<mapsto> True, 4 \<mapsto> False]\<rparr> = Inl KeyError \<and>
   name \<lparr>priv_config = Map.empty, priv_should_poll = VBool True,
         priv_bool2state = [(True, 5 :: nat), (False, 4)],
         priv_state2bool = [5 \<mapsto> True, 4 \<mapsto> False]\<rparr> = Inl KeyError"
  by (simp add: ZigBeeDigitalPinConfig_init_def ZigBeeConfig_init_def boolean_maps_def
        dict_get_def str_lower_def ZigBeeDigitalIn_init_def pin_def name_def dict_getitem_def)

section \<open>Analog input: reading\<close>

text \<open>
  Claim C10. When the pin, the maximum voltage and the address are readable,
  \<^verbatim>\<open>update\<close> of an analog input calls the helper once; whatever value the
  helper returns becomes the cached value as it is, and the state of the
  entity is that value. When the helper raises, the entity is left as it was.
  A new entity has the state \<^verbatim>\<open>None\<close>.
\<close>

theorem analog_update:
  assumes "DEVICE (g :: ('r, 'm) globals) = Some d"
    and "pin (ain_config self) = Inr p"
    and "max_voltage conv (ain_config self) = Inr mv"
    and "address (ain_config self) = Inr a"
  shows "ZigBeeAnalogIn_update conv g self =
           (case read_analog_pin d p mv a (ADC_PERCENTAGE g) of
              Inl e \<Rightarrow> (Inl e, self, [CallReadAnalogPin p mv a (ADC_PERCENTAGE g)])
            | Inr v \<Rightarrow>
                (Inr (), self\<lparr>ain_value := v\<rparr>, [CallReadAnalogPin p mv a (ADC_PERCENTAGE g)])) \<and>
         (\<forall>v. ZigBeeAnalogIn_state (self\<lparr>ain_value := v\<rparr>) = v) \<and>
         ZigBeeAnalogIn_state
           (fst (ZigBeeAnalogIn_init config :: ZigBeeAnalogIn \<times> ('r, 'm) event list)) = VNone"
  using assms
  by (simp add: ZigBeeAnalogIn_update_def ZigBeeAnalogIn_state_def ZigBeeAnalogIn_init_def
        split: sum.splits)

theorem analog_update_witness:
  "ZigBeeAnalogIn_update
     (\<lambda>v. if v = VStr ''2.4'' then Inr (Finite (5404319552844595 / 2251799813685248))
           else Inl ValueError)
     (test_globals (test_device (Inr 4) (Inr ()) (Inr (VInt 250))))
     (fst (ZigBeeAnalogIn_init (ZigBeeAnalogInConfig_init
        [''name'' \<mapsto> VStr ''Sensor'', ''pin'' \<mapsto> VStr ''A1'', ''max_volts'' \<mapsto> VStr ''2.4''])
        :: ZigBeeAnalogIn \<times> (nat, unit) event list)) =
     (Inr (),
      \<lparr>ain_config = ZigBeeAnalogInConfig_init
         [''name'' \<mapsto> VStr ''Sensor'', ''pin'' \<mapsto> VStr ''A1'', ''max_volts'' \<mapsto> VStr ''2.4''],
       ain_value = VInt 250\<rparr>,
      [CallReadAnalogPin (VStr ''A1'') (Finite (5404319552844595 / 2251799813685248)) None ()]) \<and>
   ZigBeeAnalogIn_state
     (fst (ZigBeeAnalogIn_init (ZigBeeAnalogInConfig_init
        [''name'' \<mapsto> VStr ''Sensor'', ''pin'' \<mapsto> VStr ''A1'', ''max_volts'' \<mapsto> VStr ''2.4''])
        :: ZigBeeAnalogIn \<times> (nat, unit) event list)) = VNone"
proof -
  let ?conv = "\<lambda>v. if v = VStr ''2.4'' then Inr (Finite (5404319552844595 / 2251799813685248))
                    else Inl ValueError"
  let ?d = "test_device (Inr 4) (Inr ()) (Inr (VInt 250))"
  let ?g = "test_globals ?d"
  let ?cfg = "[''name'' \<mapsto> VStr ''Sensor'', ''pin'' \<mapsto> VStr ''A1'', ''max_volts'' \<mapsto> VStr ''2.4'']"
  let ?c = "ZigBeeAnalogInConfig_init ?cfg"
  let ?self = "\<lparr>ain_config = ?c, ain_value = VNone\<rparr>"
  have i: "fst (ZigBeeAnalogIn_init ?c :: ZigBeeAnalogIn \<times> (nat, unit) event list) = ?self"
    by (simp add: ZigBeeAnalogIn_init_def)
  have dev: "DEVICE ?g = Some ?d" and adc: "ADC_PERCENTAGE ?g = ()"
    by (simp_all add: test_globals_def)
  have p: "pin ?c = Inr (VStr ''A1'')" and a: "address ?c = Inr None"
    by (simp_all add: pin_def address_def dict_getitem_def dict_get_def ZigBeeConfig_init_def)
  have mv: "max_voltage ?conv ?c = Inr (Finite (5404319552844595 / 2251799813685248))"
    by (simp add: max_voltage_def dict_get_def ZigBeeConfig_init_def)
  have r: "read_analog_pin ?d (VStr ''A1'') (Finite (5404319552844595 / 2251799813685248)) None ()
             = Inr (VInt 250)"
    by (simp add: test_device_def)
  have s: "ZigBeeAnalogIn_update ?conv ?g ?self =
             (Inr (), \<lparr>ain_config = ?c, ain_value = VInt 250\<rparr>,
              [CallReadAnalogPin (VStr ''A1'') (Finite (5404319552844595 / 2251799813685248))
                 None ()]) \<and>
           ZigBeeAnalogIn_state
             (fst (ZigBeeAnalogIn_init ?c :: ZigBeeAnalogIn \<times> (nat, unit) event list)) = VNone"
    using analog_update [of ?g ?d ?self "VStr ''A1''" ?conv
        "Finite (5404319552844595 / 2251799813685248)" None ?c] dev p mv a r
    by simp
  show ?thesis
    using s by (simp only: i)
qed

end
